theory Spec2Isabelle
  imports Complex_Main "HOL-Library.Sublist" "HOL-Library.Code_Target_Nat"
begin

section \<open>JavaScript numbers\<close>

text \<open>
  A JavaScript \<^verbatim>\<open>number\<close> is an IEEE-754 binary64 value. The cost arithmetic of the
  program multiplies, divides and adds such values and the claims about costs depend on
  how each operation rounds, so the rounding is written out. A finite double is
  represented by the rational number it denotes; \<open>fl\<close> rounds an arbitrary rational to
  the nearest double (53 significant bits, ties to the even significand), and every
  arithmetic operation is the exact operation followed by \<open>fl\<close>.

  Not represented: \<^verbatim>\<open>NaN\<close>, the infinities and the sign of zero, and the exponent range
  is unbounded (no overflow, no subnormal numbers). Every value the program computes
  from pixel sizes below \<open>2^53\<close> lies well inside the normal range of binary64, where the
  model and the machine agree.
\<close>

type_synonym number = rat

definition round_half_even :: "rat \<Rightarrow> int" where
  "round_half_even y =
     (let n = \<lfloor>y\<rfloor>; r = y - of_int n
      in if r < 1 / 2 then n else if 1 / 2 < r then n + 1 else if even n then n else n + 1)"

definition scale_measure :: "rat \<Rightarrow> nat" where
  "scale_measure x = (if 2 ^ 53 \<le> x then nat \<lceil>x\<rceil> else nat \<lceil>2 ^ 52 / x\<rceil>)"

lemma ceiling_half_less:
  assumes "(1::rat) < y"
  shows "nat \<lceil>y / 2\<rceil> < nat \<lceil>y\<rceil>"
proof (cases "2 \<le> y")
  case True
  have "y \<le> of_int \<lceil>y\<rceil>" by (rule le_of_int_ceiling)
  with True have "y / 2 \<le> of_int \<lceil>y\<rceil> - 1" by linarith
  then have "\<lceil>y / 2\<rceil> < \<lceil>y\<rceil>" by (simp add: ceiling_less_iff)
  moreover have "0 < \<lceil>y\<rceil>" using assms by (simp add: less_ceiling_iff)
  ultimately show ?thesis by linarith
next
  case False
  then have "\<lceil>y / 2\<rceil> \<le> 1" by (simp add: ceiling_le_iff)
  moreover have "1 < \<lceil>y\<rceil>" using assms by (simp add: less_ceiling_iff)
  ultimately show ?thesis by linarith
qed

lemma scale_measure_halve:
  assumes "2 ^ 53 \<le> x"
  shows "scale_measure (x / 2) < scale_measure x"
proof (cases "2 ^ 53 \<le> x / 2")
  case True
  have "nat \<lceil>x / 2\<rceil> < nat \<lceil>x\<rceil>" using assms by (intro ceiling_half_less) simp
  with True assms show ?thesis by (simp add: scale_measure_def)
next
  case False
  have "1 < \<lceil>x\<rceil>" using assms by (simp add: less_ceiling_iff)
  moreover have "2 ^ 52 / (x / 2) \<le> 1" using assms by (simp add: field_simps)
  then have "\<lceil>2 ^ 52 / (x / 2)\<rceil> \<le> 1" by (simp only: ceiling_le_iff of_int_1)
  ultimately have "nat \<lceil>2 ^ 52 / (x / 2)\<rceil> < nat \<lceil>x\<rceil>" by linarith
  with False assms show ?thesis by (simp add: scale_measure_def)
qed

lemma scale_measure_double:
  assumes "0 < x" and "x < 2 ^ 52"
  shows "scale_measure (2 * x) < scale_measure x"
proof -
  have "1 < 2 ^ 52 / x" using assms by (simp add: field_simps)
  then have "nat \<lceil>2 ^ 52 / x / 2\<rceil> < nat \<lceil>2 ^ 52 / x\<rceil>" by (rule ceiling_half_less)
  moreover have "2 ^ 52 / (2 * x) = 2 ^ 52 / x / 2" by simp
  ultimately show ?thesis using assms by (simp add: scale_measure_def)
qed

text \<open>
  \<open>round53 x\<close>, for \<open>x > 0\<close>: scale \<open>x\<close> by a power of two into \<open>[2^52, 2^53)\<close>, round it
  there to an integer (ties to even), and scale back.
\<close>

function round53 :: "rat \<Rightarrow> rat" where
  "round53 x =
     (if x \<le> 0 then 0
      else if 2 ^ 53 \<le> x then 2 * round53 (x / 2)
      else if x < 2 ^ 52 then round53 (2 * x) / 2
      else of_int (round_half_even x))"
  by pat_completeness auto
termination
  by (relation "measure scale_measure") (simp_all add: scale_measure_halve scale_measure_double)

declare round53.simps [simp del]

definition fl :: "rat \<Rightarrow> number" where
  "fl x = (if x < 0 then - round53 (- x) else round53 x)"

text \<open>A decimal literal of the source text denotes the nearest double.\<close>

definition lit :: "rat \<Rightarrow> number" where
  "lit q = fl q"

text \<open>The operators \<^verbatim>\<open>*\<close>, \<^verbatim>\<open>/\<close> (by a non-zero divisor) and \<^verbatim>\<open>+\<close> on numbers.\<close>

definition fmul :: "number \<Rightarrow> number \<Rightarrow> number" where
  "fmul x y = fl (x * y)"

definition fdiv :: "number \<Rightarrow> number \<Rightarrow> number" where
  "fdiv x y = fl (x / y)"

definition fadd :: "number \<Rightarrow> number \<Rightarrow> number" where
  "fadd x y = fl (x + y)"

text \<open>
  \<^verbatim>\<open>x.toFixed(3)\<close> yields a decimal string; it is represented by the rational that the
  string denotes. ECMAScript takes the integer \<open>n\<close> for which \<open>n / 1000 - x\<close> is closest to
  zero, the larger \<open>n\<close> on a tie, after moving the sign of a negative \<open>x\<close> into the
  string. From \<open>10^21\<close> on, the result is the ordinary string of \<open>x\<close>, which reads back as
  \<open>x\<close>. \<^verbatim>\<open>Number(s)\<close> of a decimal string is the double nearest to the value it denotes.
\<close>

definition toFixed3 :: "number \<Rightarrow> rat" where
  "toFixed3 x =
     (if 10 ^ 21 \<le> \<bar>x\<bar> then x
      else if x < 0 then - (of_int \<lfloor>- x * 1000 + 1 / 2\<rfloor> / 1000)
      else of_int \<lfloor>x * 1000 + 1 / 2\<rfloor> / 1000)"

definition Number_of_decimal :: "rat \<Rightarrow> number" where
  "Number_of_decimal d = fl d"

text \<open>
  \<^verbatim>\<open>a || b\<close> where \<open>a\<close> is a number that may be \<^verbatim>\<open>undefined\<close>: \<open>b\<close> when \<open>a\<close> is
  undefined or zero (both are falsy), otherwise \<open>a\<close>.
\<close>

definition or_else :: "number option \<Rightarrow> number \<Rightarrow> number" where
  "or_else a b = (case a of None \<Rightarrow> b | Some v \<Rightarrow> if v = 0 then b else v)"

text \<open>
  \<^verbatim>\<open>a ?? b\<close>, and the default of a destructured parameter: \<open>b\<close> when \<open>a\<close> is undefined.
\<close>

definition nullish :: "'a option \<Rightarrow> 'a \<Rightarrow> 'a" where
  "nullish a b = (case a of None \<Rightarrow> b | Some v \<Rightarrow> v)"

section \<open>The model registry and the cost estimator\<close>

text \<open>
  The keys \<^verbatim>\<open>"flux-pro"\<close>, \<^verbatim>\<open>"flux-lora"\<close>, \<^verbatim>\<open>"flux-dev"\<close> and \<^verbatim>\<open>"flux-schnell"\<close>
  of \<^verbatim>\<open>AVAILABLE_MODELS\<close>; the type \<^verbatim>\<open>keyof typeof AVAILABLE_MODELS\<close>.
\<close>

datatype ModelAlias = FluxPro | FluxLora | FluxDev | FluxSchnell

fun AVAILABLE_MODELS :: "ModelAlias \<Rightarrow> string" where
  "AVAILABLE_MODELS FluxPro = ''fal-ai/flux-pro/v1.1-ultra''"
| "AVAILABLE_MODELS FluxLora = ''fal-ai/flux-lora''"
| "AVAILABLE_MODELS FluxDev = ''fal-ai/flux/dev''"
| "AVAILABLE_MODELS FluxSchnell = ''fal-ai/flux/schnell''"

definition COST_PER_MEGAPIXEL :: "(ModelAlias \<times> number) list" where
  "COST_PER_MEGAPIXEL =
     [(FluxPro, lit (5 / 100)),
      (FluxDev, lit (25 / 1000)),
      (FluxSchnell, lit (3 / 1000)),
      (FluxLora, lit (25 / 1000))]"

definition calculateImageCost :: "number \<Rightarrow> number \<Rightarrow> ModelAlias \<Rightarrow> number" where
  "calculateImageCost w h model =
     (let megapixels = fdiv (fmul w h) 1000000;
          costPerMp = or_else (map_of COST_PER_MEGAPIXEL model) 0
      in Number_of_decimal (toFixed3 (fmul megapixels costPerMp)))"

section \<open>Values, payloads, responses and thrown values\<close>

text \<open>
  The values that occur in a request object. \<open>NaN\<close> and the two infinities are listed
  apart because \<open>number\<close> holds finite values only. A request object is the list of its properties in the
  order of the object literal; \<open>map_of\<close> reads a property, and \<open>None\<close> means that the
  object has no such property (which differs from a property whose value is
  \<open>Undefined\<close>).
\<close>

datatype jsval =
  Undefined | Bool bool | Num number | NaN | PosInfinity | NegInfinity | Str string

type_synonym payload = "(string \<times> jsval) list"

text \<open>The optional \<^verbatim>\<open>options\<close> argument of \<^verbatim>\<open>generateImage\<close>; \<open>None\<close> is an unset field.\<close>

record options =
  seed :: "number option"
  enable_safety_checker :: "bool option"
  safety_tolerance :: "string option"
  output_format :: "string option"
  raw :: "bool option"

text \<open>\<^verbatim>\<open>options?.f\<close>: undefined when \<^verbatim>\<open>options\<close> itself is.\<close>

definition opt_field :: "(options \<Rightarrow> 'a option) \<Rightarrow> options option \<Rightarrow> 'a option" where
  "opt_field f opts = (case opts of None \<Rightarrow> None | Some os \<Rightarrow> f os)"

text \<open>
  An image of the provider's response. The provider may leave out any property.
  The response is represented by the value of \<^verbatim>\<open>result.data.images\<close>: \<open>None\<close> when that
  property is absent (\<^verbatim>\<open>result\<close> and \<^verbatim>\<open>result.data\<close> are objects, as the client library
  returns them).
\<close>

record image =
  url :: "string option"
  width :: "number option"
  height :: "number option"

type_synonym response = "image list option"

text \<open>
  A thrown value: an \<^verbatim>\<open>Error\<close> with its message and, when it has one, its numeric
  \<^verbatim>\<open>status\<close> property (the HTTP status of the client library's error), or a value that
  is not an instance of \<^verbatim>\<open>Error\<close>.
\<close>

datatype thrown = Error string "nat option" | NonError

text \<open>
  The remote call \<^verbatim>\<open>fal.subscribe(endpoint, {input, logs: true})\<close>, made after
  \<^verbatim>\<open>fal.config({credentials: apiKey})\<close>, is an external collaborator: a function of the
  credentials, the endpoint and the input that returns a response or throws.
\<close>

type_synonym subscribe = "string \<Rightarrow> string \<Rightarrow> payload \<Rightarrow> thrown + response"

text \<open>The decimal string of a natural number, as a template literal prints it.\<close>

fun string_of_nat :: "nat \<Rightarrow> string" where
  "string_of_nat n =
     (if n < 10 then [''0123456789'' ! n]
      else string_of_nat (n div 10) @ [''0123456789'' ! (n mod 10)])"

declare string_of_nat.simps [simp del]

text \<open>
  The message of the \<^verbatim>\<open>TypeError\<close> that \<^verbatim>\<open>undefined.map\<close> raises, in the wording of V8
  (the engine of Node.js, where a server action runs).
\<close>

definition TypeError_map :: string where
  "TypeError_map =
     ''Cannot read properties of undefined (reading '' @ [CHR 0x27] @ ''map'' @ [CHR 0x27] @ '')''"

section \<open>generateImage\<close>

text \<open>The \<^verbatim>\<open>input\<close> object literal of \<^verbatim>\<open>generateImage\<close> (source lines 79 to 88).\<close>

definition generateImage_input ::
  "string \<Rightarrow> string \<Rightarrow> number option \<Rightarrow> options option \<Rightarrow> payload" where
  "generateImage_input prompt aspectRatio numImages opts =
     [(''prompt'', Str prompt),
      (''aspect_ratio'', Str aspectRatio),
      (''num_images'', Num (min (max 1 (nullish numImages 1)) 4)),
      (''enable_safety_checker'', Bool (nullish (opt_field enable_safety_checker opts) False)),
      (''safety_tolerance'', Str (nullish (opt_field safety_tolerance opts) ''6'')),
      (''output_format'', Str (nullish (opt_field output_format opts) ''jpeg''))]
     @ (case opt_field seed opts of None \<Rightarrow> [] | Some s \<Rightarrow> [(''seed'', Num s)])
     @ (case opt_field raw opts of None \<Rightarrow> [] | Some r \<Rightarrow> [(''raw'', Bool r)])"

record GenerationResult =
  status :: string
  imageUrls :: "string option list"
  cost :: number

text \<open>
  The body of the \<^verbatim>\<open>try\<close> block. After the remote call, the log statement of lines
  92 to 100 calls \<^verbatim>\<open>result.data.images.map\<close>, which throws when \<^verbatim>\<open>images\<close> is absent;
  then comes the guard \<^verbatim>\<open>!result?.data?.images?.length\<close> of line 102, the cost
  (\<^verbatim>\<open>reduce\<close> from \<open>0\<close>, left to right) and the response object.
\<close>

definition generateImage_try ::
  "subscribe \<Rightarrow> string \<Rightarrow> string \<Rightarrow> string \<Rightarrow> ModelAlias \<Rightarrow> number option \<Rightarrow>
   options option \<Rightarrow> thrown + GenerationResult" where
  "generateImage_try sub apiKey prompt aspectRatio model numImages opts =
     (case sub apiKey (AVAILABLE_MODELS model)
             (generateImage_input prompt aspectRatio numImages opts) of
        Inl error \<Rightarrow> Inl error
      | Inr result \<Rightarrow>
          (case result of
             None \<Rightarrow> Inl (Error TypeError_map None)
           | Some images \<Rightarrow>
               if (case result of None \<Rightarrow> True | Some imgs \<Rightarrow> length imgs = 0)
               then Inl (Error ''No images in response'' None)
               else Inr \<lparr>status = ''COMPLETED'',
                         imageUrls = map url images,
                         cost = foldl (\<lambda>acc img. fadd acc
                                   (calculateImageCost (or_else (width img) 2048)
                                      (or_else (height img) 2048) model)) 0 images\<rparr>))"

text \<open>The \<^verbatim>\<open>catch\<close> block: the message it builds and the \<^verbatim>\<open>Error\<close> it throws.\<close>

definition errorMessage :: "thrown \<Rightarrow> string" where
  "errorMessage error =
     (case error of
        Error message st \<Rightarrow>
          message @ (case st of
                       None \<Rightarrow> []
                     | Some code \<Rightarrow>
                         if code = 0 then []
                         else '' (Status: '' @ string_of_nat code @ '')'')
      | NonError \<Rightarrow> ''Unknown error'')"

definition rethrow :: "thrown \<Rightarrow> thrown" where
  "rethrow error = Error (''Failed to generate image: '' @ errorMessage error) None"

definition generateImage ::
  "subscribe \<Rightarrow> string \<Rightarrow> string \<Rightarrow> string \<Rightarrow> ModelAlias \<Rightarrow> number option \<Rightarrow>
   options option \<Rightarrow> thrown + GenerationResult" where
  "generateImage sub apiKey prompt aspectRatio model numImages opts =
     (case generateImage_try sub apiKey prompt aspectRatio model numImages opts of
        Inl error \<Rightarrow> Inl (rethrow error)
      | Inr response \<Rightarrow> Inr response)"

section \<open>generateFluxProUltraImage and generateImageRealtime\<close>

text \<open>
  \<^verbatim>\<open>FluxProUltraInput & { apiKey: string }\<close>. Its optional fields \<^verbatim>\<open>seed\<close>,
  \<^verbatim>\<open>enable_safety_checker\<close>, \<^verbatim>\<open>safety_tolerance\<close>, \<^verbatim>\<open>output_format\<close> and \<^verbatim>\<open>raw\<close> have the
  names and types of the fields of \<open>options\<close>, so the record extends that one.
\<close>

record FluxProUltraInput = options +
  apiKey :: string
  prompt :: string
  sync_mode :: "bool option"
  num_images :: "string option"
  aspect_ratio :: "string option"
  image_url :: "string option"
  image_prompt_strength :: "number option"

text \<open>
  \<^verbatim>\<open>Number(s)\<close> of a string, the StringToNumber of ECMAScript: white space around the
  literal is dropped; an empty literal is 0; a literal is a decimal literal with an
  optional sign, an optional fraction and an optional exponent, or \<^verbatim>\<open>Infinity\<close> with an
  optional sign, or an unsigned hexadecimal, octal or binary integer after \<^verbatim>\<open>0x\<close>,
  \<^verbatim>\<open>0o\<close> or \<^verbatim>\<open>0b\<close>; everything else is \<open>NaN\<close>. The value of the literal is rounded to
  the nearest double, here within the exponent range of binary64: below \<open>2^-1022\<close> the
  doubles are the multiples of \<open>2^-1074\<close>, and a value that rounds to \<open>2^1024\<close> or more
  is an infinity. A character is a code unit below 256, so of the white space of
  ECMAScript the characters beyond U+00A0 are not covered, and \<^verbatim>\<open>-0\<close> is 0.
\<close>

definition digit_of :: "char \<Rightarrow> nat option" where
  "digit_of c =
     map_of [(CHR ''0'', 0), (CHR ''1'', 1), (CHR ''2'', 2), (CHR ''3'', 3), (CHR ''4'', 4),
             (CHR ''5'', 5), (CHR ''6'', 6), (CHR ''7'', 7), (CHR ''8'', 8), (CHR ''9'', 9)] c"

fun decimal_value :: "string \<Rightarrow> nat \<Rightarrow> nat option" where
  "decimal_value [] acc = Some acc"
| "decimal_value (c # cs) acc =
     (case digit_of c of None \<Rightarrow> None | Some d \<Rightarrow> decimal_value cs (10 * acc + d))"

definition hex_digit_of :: "char \<Rightarrow> nat option" where
  "hex_digit_of c =
     (case digit_of c of
        Some d \<Rightarrow> Some d
      | None \<Rightarrow>
          map_of [(CHR ''a'', 10), (CHR ''b'', 11), (CHR ''c'', 12), (CHR ''d'', 13),
                  (CHR ''e'', 14), (CHR ''f'', 15), (CHR ''A'', 10), (CHR ''B'', 11),
                  (CHR ''C'', 12), (CHR ''D'', 13), (CHR ''E'', 14), (CHR ''F'', 15)] c)"

fun radix_value :: "nat \<Rightarrow> string \<Rightarrow> nat \<Rightarrow> nat option" where
  "radix_value b [] acc = Some acc"
| "radix_value b (c # cs) acc =
     (case hex_digit_of c of
        None \<Rightarrow> None
      | Some d \<Rightarrow> if d < b then radix_value b cs (b * acc + d) else None)"

definition is_digit :: "char \<Rightarrow> bool" where
  "is_digit c = (digit_of c \<noteq> None)"

definition is_white_space :: "char \<Rightarrow> bool" where
  "is_white_space c =
     (c \<in> set [CHR 0x09, CHR 0x0A, CHR 0x0B, CHR 0x0C, CHR 0x0D, CHR 0x20, CHR 0xA0])"

definition trim :: "string \<Rightarrow> string" where
  "trim s = rev (dropWhile is_white_space (rev (dropWhile is_white_space s)))"

text \<open>The double, or the infinity, nearest to a value that is not negative.\<close>

definition Number_of_value :: "rat \<Rightarrow> jsval" where
  "Number_of_value v =
     (if v < 1 / 2 ^ 1022 then Num (of_int (round_half_even (v * 2 ^ 1074)) / 2 ^ 1074)
      else if 2 ^ 1024 \<le> fl v then PosInfinity
      else Num (fl v))"

definition negate :: "jsval \<Rightarrow> jsval" where
  "negate v = (case v of Num x \<Rightarrow> Num (- x) | PosInfinity \<Rightarrow> NegInfinity | _ \<Rightarrow> v)"

text \<open>
  The exponent part of a decimal literal, which is empty or \<^verbatim>\<open>e\<close>, an optional sign
  and at least one digit, up to the end of the literal.
\<close>

definition exponent_part :: "string \<Rightarrow> int option" where
  "exponent_part s =
     (case s of
        [] \<Rightarrow> Some 0
      | c # r \<Rightarrow>
          if c = CHR ''e'' \<or> c = CHR ''E'' then
            (case r of
               [] \<Rightarrow> None
             | d # ds \<Rightarrow>
                 if d = CHR ''+'' then
                   (if ds = [] then None else map_option int (decimal_value ds 0))
                 else if d = CHR ''-'' then
                   (if ds = [] then None else map_option (\<lambda>n. - int n) (decimal_value ds 0))
                 else map_option int (decimal_value r 0))
          else None)"

text \<open>
  An unsigned decimal literal: digits, then optionally a point and digits, with a
  digit on at least one side of the point, then the exponent part.
\<close>

definition unsigned_decimal :: "string \<Rightarrow> rat option" where
  "unsigned_decimal s =
     (let ip = takeWhile is_digit s;
          r = dropWhile is_digit s;
          fp = (case r of [] \<Rightarrow> [] | c # t \<Rightarrow> if c = CHR ''.'' then takeWhile is_digit t else []);
          rest = (case r of [] \<Rightarrow> [] | c # t \<Rightarrow> if c = CHR ''.'' then dropWhile is_digit t else r)
      in if ip = [] \<and> fp = [] then None
         else case (decimal_value ip 0, decimal_value fp 0, exponent_part rest) of
                (Some i, Some f, Some e) \<Rightarrow>
                  Some (if 0 \<le> e
                        then (of_nat i + of_nat f / 10 ^ length fp) * 10 ^ nat e
                        else (of_nat i + of_nat f / 10 ^ length fp) / 10 ^ nat (- e))
              | _ \<Rightarrow> None)"

text \<open>An integer literal with a radix prefix; it takes no sign.\<close>

definition non_decimal :: "string \<Rightarrow> nat option" where
  "non_decimal s =
     (case s of
        z # x # ds \<Rightarrow>
          if z \<noteq> CHR ''0'' \<or> ds = [] then None
          else if x = CHR ''x'' \<or> x = CHR ''X'' then radix_value 16 ds 0
          else if x = CHR ''o'' \<or> x = CHR ''O'' then radix_value 8 ds 0
          else if x = CHR ''b'' \<or> x = CHR ''B'' then radix_value 2 ds 0
          else None
      | _ \<Rightarrow> None)"

definition signed_decimal :: "string \<Rightarrow> jsval" where
  "signed_decimal u =
     (if u = ''Infinity'' then PosInfinity
      else case unsigned_decimal u of None \<Rightarrow> NaN | Some v \<Rightarrow> Number_of_value v)"

definition Number_of_string :: "string \<Rightarrow> jsval" where
  "Number_of_string s =
     (case trim s of
        [] \<Rightarrow> Num 0
      | c # r \<Rightarrow>
          (case non_decimal (c # r) of
             Some n \<Rightarrow> Number_of_value (of_nat n)
           | None \<Rightarrow>
               if c = CHR ''-'' then negate (signed_decimal r)
               else if c = CHR ''+'' then signed_decimal r
               else signed_decimal (c # r)))"

text \<open>
  The \<^verbatim>\<open>input\<close> object literal of \<^verbatim>\<open>generateFluxProUltraImage\<close> (source lines 159 to
  171), with the defaults of the destructured parameter. \<^verbatim>\<open>seed\<close> is written as a
  plain property, so the object has it even when its value is undefined; the two
  spreads are guarded by the truthiness of their value.
\<close>

definition generateFluxProUltraImage_input :: "FluxProUltraInput \<Rightarrow> payload" where
  "generateFluxProUltraImage_input i =
     [(''prompt'', Str (prompt i)),
      (''seed'', case seed i of None \<Rightarrow> Undefined | Some s \<Rightarrow> Num s),
      (''sync_mode'', Bool (nullish (sync_mode i) False)),
      (''num_images'', Number_of_string (nullish (num_images i) ''1'')),
      (''enable_safety_checker'', Bool (nullish (enable_safety_checker i) False)),
      (''safety_tolerance'', Str (nullish (safety_tolerance i) ''6'')),
      (''output_format'', Str (nullish (output_format i) ''jpeg'')),
      (''aspect_ratio'', Str (nullish (aspect_ratio i) ''16:9'')),
      (''raw'', Bool (nullish (raw i) False))]
     @ (case image_url i of
          None \<Rightarrow> []
        | Some u \<Rightarrow> if u = [] then [] else [(''image_url'', Str u)])
     @ (case image_prompt_strength i of
          None \<Rightarrow> []
        | Some s \<Rightarrow> if s = 0 then [] else [(''image_prompt_strength'', Num s)])"

text \<open>\<^verbatim>\<open>result?.data?.images?.[0]?.url\<close>.\<close>

definition first_url :: "response \<Rightarrow> string option" where
  "first_url result =
     (case result of None \<Rightarrow> None | Some [] \<Rightarrow> None | Some (img # rest) \<Rightarrow> url img)"

definition generateFluxProUltraImage_try :: "subscribe \<Rightarrow> FluxProUltraInput \<Rightarrow> thrown + string" where
  "generateFluxProUltraImage_try sub i =
     (case sub (apiKey i) ''fal-ai/flux-pro/v1.1-ultra'' (generateFluxProUltraImage_input i) of
        Inl error \<Rightarrow> Inl error
      | Inr result \<Rightarrow>
          (case first_url result of
             None \<Rightarrow> Inl (Error ''No image URL in response'' None)
           | Some u \<Rightarrow>
               if u = [] then Inl (Error ''No image URL in response'' None) else Inr u))"

definition generateFluxProUltraImage :: "subscribe \<Rightarrow> FluxProUltraInput \<Rightarrow> thrown + string" where
  "generateFluxProUltraImage sub i =
     (case generateFluxProUltraImage_try sub i of
        Inl error \<Rightarrow> Inl (rethrow error)
      | Inr u \<Rightarrow> Inr u)"

text \<open>The object that \<^verbatim>\<open>generateImageRealtime\<close> sends over the realtime connection.\<close>

definition generateImageRealtime_send :: "string \<Rightarrow> string \<Rightarrow> payload" where
  "generateImageRealtime_send p aspectRatio =
     [(''prompt'', Str p),
      (''aspect_ratio'', Str aspectRatio),
      (''output_format'', Str ''jpeg''),
      (''enable_safety_checker'', Bool False)]"

text \<open>
  The call \<^verbatim>\<open>generateFluxProUltraImage({apiKey: k, prompt: p})\<close>: every optional field
  is left unset.
\<close>

definition unset_input :: "string \<Rightarrow> string \<Rightarrow> FluxProUltraInput" where
  "unset_input k p =
     \<lparr>seed = None, enable_safety_checker = None, safety_tolerance = None,
      output_format = None, raw = None, apiKey = k, prompt = p, sync_mode = None,
      num_images = None, aspect_ratio = None, image_url = None,
      image_prompt_strength = None\<rparr>"

section \<open>Properties of the arithmetic\<close>

lemma round53_nonpos: "x \<le> 0 \<Longrightarrow> round53 x = 0"
  by (simp add: round53.simps)

lemma round53_halve: "2 ^ 53 \<le> x \<Longrightarrow> round53 x = 2 * round53 (x / 2)"
  by (subst round53.simps) auto

lemma round53_double: "0 < x \<Longrightarrow> x < 2 ^ 52 \<Longrightarrow> round53 x = round53 (2 * x) / 2"
  by (subst round53.simps) auto

lemma round53_round: "2 ^ 52 \<le> x \<Longrightarrow> x < 2 ^ 53 \<Longrightarrow> round53 x = of_int (round_half_even x)"
  by (subst round53.simps) auto

lemma floor_rat_numeral_div: "\<lfloor>numeral a / numeral b :: rat\<rfloor> = numeral a div numeral b"
  by (metis floor_divide_of_int_eq of_int_numeral)

lemmas fl_eval = fl_def round53_nonpos round53_halve round53_double round53_round
  round_half_even_def Let_def floor_rat_numeral_div

text \<open>
  What makes \<open>fl\<close> the rounding of binary64: its result has a significand of at most 53
  bits, and it differs from its argument by at most half a unit in the last place,
  that is by the fraction \<open>2^-53\<close> of the argument. In particular it keeps the sign.
\<close>

lemma round_half_even_near: "\<bar>of_int (round_half_even y) - y\<bar> \<le> 1 / 2"
proof -
  have "of_int \<lfloor>y\<rfloor> \<le> y" and "y < of_int \<lfloor>y\<rfloor> + 1"
    by linarith+
  then show ?thesis
    by (auto simp: round_half_even_def Let_def)
qed

lemma round53_significand:
  "\<exists>m e. round53 x = of_int m * 2 powi e \<and> 0 \<le> m \<and> m \<le> 2 ^ 53"
proof (induction x rule: round53.induct)
  case (1 x)
  consider "x \<le> 0" | "2 ^ 53 \<le> x" | "0 < x" "x < 2 ^ 52" | "2 ^ 52 \<le> x" "x < 2 ^ 53"
    by linarith
  then show ?case
  proof cases
    case 1
    then have "round53 x = of_int 0 * 2 powi 0" by (simp add: round53_nonpos)
    then show ?thesis by (intro exI [of _ 0]) simp
  next
    case 2
    then obtain m e where "round53 (x / 2) = of_int m * 2 powi e" "0 \<le> m" "m \<le> 2 ^ 53"
      using "1.IH"(1) by fastforce
    with 2 have "round53 x = of_int m * 2 powi (e + 1)"
      by (simp add: round53_halve power_int_add)
    with \<open>0 \<le> m\<close> \<open>m \<le> 2 ^ 53\<close> show ?thesis by blast
  next
    case 3
    then obtain m e where "round53 (2 * x) = of_int m * 2 powi e" "0 \<le> m" "m \<le> 2 ^ 53"
      using "1.IH"(2) by fastforce
    with 3 have "round53 x = of_int m * 2 powi (e - 1)"
      by (simp add: round53_double power_int_diff)
    with \<open>0 \<le> m\<close> \<open>m \<le> 2 ^ 53\<close> show ?thesis by blast
  next
    case 4
    let ?n = "round_half_even x"
    have near: "\<bar>of_int ?n - x\<bar> \<le> 1 / 2"
      by (rule round_half_even_near)
    from 4 have x: "(4503599627370496 :: rat) \<le> x" "x < (9007199254740992 :: rat)"
      by simp_all
    from near x(1) have "(of_int 0 :: rat) \<le> of_int ?n"
      unfolding of_int_0 by linarith
    then have lower: "0 \<le> ?n"
      by (simp only: of_int_le_iff)
    from near x(2) have "(of_int ?n :: rat) < 9007199254740993"
      by linarith
    then have "(of_int ?n :: rat) < of_int 9007199254740993"
      by simp
    then have "?n < 9007199254740993"
      by (simp only: of_int_less_iff)
    then have upper: "?n \<le> 2 ^ 53"
      by simp
    from 4 have "round53 x = of_int ?n * 2 powi 0"
      by (simp add: round53_round)
    with lower upper show ?thesis
      by blast
  qed
qed

lemma round53_error: "0 < x \<Longrightarrow> \<bar>round53 x - x\<bar> \<le> x / 2 ^ 53"
proof (induction x rule: round53.induct)
  case (1 x)
  show ?case
  proof (cases "2 ^ 53 \<le> x")
    case True
    with "1.prems" have "\<bar>round53 (x / 2) - x / 2\<bar> \<le> x / 2 / 2 ^ 53"
      by (intro "1.IH"(1)) auto
    then have "\<bar>2 * round53 (x / 2) - x\<bar> \<le> x / 2 ^ 53"
      by (simp add: abs_le_iff field_simps)
    then show ?thesis
      using True by (simp only: round53_halve)
  next
    case False
    show ?thesis
    proof (cases "x < 2 ^ 52")
      case True
      with "1.prems" False have "\<bar>round53 (2 * x) - 2 * x\<bar> \<le> 2 * x / 2 ^ 53"
        by (intro "1.IH"(2)) auto
      then have "\<bar>round53 (2 * x) / 2 - x\<bar> \<le> x / 2 ^ 53"
        by (simp add: abs_le_iff field_simps)
      then show ?thesis
        using "1.prems" True by (simp only: round53_double)
    next
      case mid: False
      then have "1 / 2 \<le> x / 2 ^ 53"
        by simp
      with round_half_even_near [of x]
      have "\<bar>of_int (round_half_even x) - x\<bar> \<le> x / 2 ^ 53"
        by linarith
      moreover have "round53 x = of_int (round_half_even x)"
        using False mid by (intro round53_round) auto
      ultimately show ?thesis by simp
    qed
  qed
qed

lemma fl_error: "\<bar>fl x - x\<bar> \<le> \<bar>x\<bar> / 2 ^ 53"
proof -
  consider "x < 0" | "x = 0" | "0 < x" by linarith
  then show ?thesis
  proof cases
    case 1
    then have "\<bar>round53 (- x) - (- x)\<bar> \<le> (- x) / 2 ^ 53"
      by (intro round53_error) simp
    then have "\<bar>- round53 (- x) - x\<bar> \<le> \<bar>x\<bar> / 2 ^ 53"
      using 1 by (simp add: abs_le_iff field_simps)
    with 1 show ?thesis by (simp add: fl_def)
  next
    case 2
    then show ?thesis by (simp add: fl_def round53_nonpos)
  next
    case 3
    with round53_error [of x] show ?thesis by (simp add: fl_def)
  qed
qed

lemma fl_nonneg: "0 \<le> x \<Longrightarrow> 0 \<le> fl x"
proof -
  assume nonneg: "0 \<le> x"
  then have "\<bar>x\<bar> / 2 ^ 53 \<le> x" by (simp add: field_simps)
  with fl_error [of x] have "\<bar>fl x - x\<bar> \<le> x" by linarith
  then show ?thesis by linarith
qed

text \<open>
  A double is a significand between \<open>2^52\<close> and \<open>2^53\<close> times a power of two. Rounding
  yields such a value and leaves such a value as it is, so rounding twice is rounding
  once, and adding 0 to a cost does not change it.
\<close>

lemma round_half_even_of_int: "round_half_even (of_int n) = n"
  by (simp add: round_half_even_def)

lemma two_powi_ge: "1 \<le> e \<Longrightarrow> (2::rat) \<le> 2 powi e"
proof -
  assume "1 \<le> e"
  then have "(2::rat) powi 1 \<le> 2 powi e" by (intro power_int_increasing) auto
  then show ?thesis by simp
qed

lemma two_powi_le: "e \<le> - 1 \<Longrightarrow> (2::rat) powi e \<le> 1 / 2"
proof -
  assume "e \<le> - 1"
  then have "(2::rat) powi e \<le> 2 powi (- 1)" by (intro power_int_increasing) auto
  then show ?thesis by (simp add: power_int_minus)
qed

lemma round53_fixes:
  "x = of_int m * 2 powi e \<Longrightarrow> 2 ^ 52 \<le> m \<Longrightarrow> m < 2 ^ 53 \<Longrightarrow> round53 x = x"
proof (induction x arbitrary: e rule: round53.induct)
  case (1 x)
  have m: "(2 ^ 52 :: rat) \<le> of_int m" "(of_int m :: rat) < 2 ^ 53"
    using "1.prems"(2,3)
    by (simp_all add: of_int_le_iff [symmetric] of_int_less_iff [symmetric]
        del: of_int_le_iff of_int_less_iff)
  have pos: "0 < x" using "1.prems"(1) m by simp
  consider "2 ^ 53 \<le> x" | "x < 2 ^ 52" | "2 ^ 52 \<le> x" "x < 2 ^ 53"
    by linarith
  then show ?case
  proof cases
    case 1
    have "x / 2 = of_int m * 2 powi (e - 1)"
      using "1.prems"(1) by (simp add: power_int_diff)
    with pos 1 "1.prems"(2,3) have "round53 (x / 2) = x / 2"
      by (intro "1.IH"(1)) auto
    with 1 show ?thesis by (simp add: round53_halve)
  next
    case 2
    have "2 * x = of_int m * 2 powi (e + 1)"
      using "1.prems"(1) by (simp add: power_int_add)
    with pos 2 "1.prems"(2,3) have "round53 (2 * x) = 2 * x"
      by (intro "1.IH"(2)) auto
    with pos 2 show ?thesis by (simp add: round53_double)
  next
    case 3
    have "e = 0"
    proof (rule ccontr)
      assume "e \<noteq> 0"
      then consider "1 \<le> e" | "e \<le> - 1" by linarith
      then show False
      proof cases
        case 1
        then have "(2::rat) \<le> 2 powi e" by (rule two_powi_ge)
        with m(1) have "2 ^ 52 * 2 \<le> of_int m * (2::rat) powi e"
          by (intro mult_mono) auto
        with 3(2) "1.prems"(1) show False by simp
      next
        case 2
        then have "(2::rat) powi e \<le> 1 / 2" by (rule two_powi_le)
        with m(1) have "of_int m * (2::rat) powi e \<le> of_int m * (1 / 2)"
          by (intro mult_left_mono) auto
        also have "\<dots> < 2 ^ 53 * (1 / 2)"
          using m(2) by simp
        finally show False
          using 3(1) "1.prems"(1) by simp
      qed
    qed
    with "1.prems"(1) have "x = of_int m" by simp
    with 3 show ?thesis by (simp add: round53_round round_half_even_of_int)
  qed
qed

lemma round53_normal:
  "0 < x \<Longrightarrow> \<exists>m e. round53 x = of_int m * 2 powi e \<and> 2 ^ 52 \<le> m \<and> m < 2 ^ 53"
proof (induction x rule: round53.induct)
  case (1 x)
  consider "2 ^ 53 \<le> x" | "x < 2 ^ 52" | "2 ^ 52 \<le> x" "x < 2 ^ 53"
    by linarith
  then show ?case
  proof cases
    case 1
    with "1.prems"
    have "\<exists>m e. round53 (x / 2) = of_int m * 2 powi e \<and> 2 ^ 52 \<le> m \<and> m < 2 ^ 53"
      by (intro "1.IH"(1)) auto
    then obtain m e
      where "round53 (x / 2) = of_int m * 2 powi e" "2 ^ 52 \<le> m" "m < 2 ^ 53"
      by blast
    with 1 have "round53 x = of_int m * 2 powi (e + 1)"
      by (simp add: round53_halve power_int_add)
    with \<open>2 ^ 52 \<le> m\<close> \<open>m < 2 ^ 53\<close> show ?thesis by blast
  next
    case 2
    with "1.prems"
    have "\<exists>m e. round53 (2 * x) = of_int m * 2 powi e \<and> 2 ^ 52 \<le> m \<and> m < 2 ^ 53"
      by (intro "1.IH"(2)) auto
    then obtain m e
      where "round53 (2 * x) = of_int m * 2 powi e" "2 ^ 52 \<le> m" "m < 2 ^ 53"
      by blast
    with 2 "1.prems" have "round53 x = of_int m * 2 powi (e - 1)"
      by (simp add: round53_double power_int_diff)
    with \<open>2 ^ 52 \<le> m\<close> \<open>m < 2 ^ 53\<close> show ?thesis by blast
  next
    case 3
    let ?n = "round_half_even x"
    have near: "\<bar>of_int ?n - x\<bar> \<le> 1 / 2"
      by (rule round_half_even_near)
    from 3 have x: "(4503599627370496 :: rat) \<le> x" "x < (9007199254740992 :: rat)"
      by simp_all
    from near x(1) have "(4503599627370495 :: rat) < of_int ?n"
      by linarith
    then have "(of_int 4503599627370495 :: rat) < of_int ?n"
      by simp
    then have "4503599627370495 < ?n"
      by (simp only: of_int_less_iff)
    then have lower: "2 ^ 52 \<le> ?n"
      by simp
    from near x(2) have "(of_int ?n :: rat) < 9007199254740993"
      by linarith
    then have "(of_int ?n :: rat) < of_int 9007199254740993"
      by simp
    then have "?n < 9007199254740993"
      by (simp only: of_int_less_iff)
    then have upper: "?n \<le> 2 ^ 53"
      by simp
    from 3 have r: "round53 x = of_int ?n"
      by (simp add: round53_round)
    show ?thesis
    proof (cases "?n = 2 ^ 53")
      case True
      define k :: int where "k = 2 ^ 52"
      with r True have "round53 x = of_int k * 2 powi 1" "2 ^ 52 \<le> k" "k < 2 ^ 53"
        by simp_all
      then show ?thesis
        by blast
    next
      case False
      with upper have "?n < 2 ^ 53" by simp
      moreover from r have "round53 x = of_int ?n * 2 powi 0" by simp
      ultimately show ?thesis using lower by blast
    qed
  qed
qed

lemma round53_idem: "round53 (round53 x) = round53 x"
proof (cases "0 < x")
  case False
  then show ?thesis by (simp add: round53_nonpos)
next
  case True
  then obtain m e where "round53 x = of_int m * 2 powi e" "2 ^ 52 \<le> m" "m < 2 ^ 53"
    using round53_normal by blast
  then show ?thesis by (rule round53_fixes)
qed

lemma fl_idem: "fl (fl x) = fl x"
proof (cases "x < 0")
  case True
  then have "0 < - x" by simp
  then obtain m e where me: "round53 (- x) = of_int m * 2 powi e" "2 ^ 52 \<le> m" "m < 2 ^ 53"
    using round53_normal by blast
  then have "(0::rat) < of_int m * 2 powi e" by (simp add: zero_less_mult_iff)
  with me(1) have "0 < round53 (- x)" by simp
  with True show ?thesis by (simp add: fl_def round53_idem)
next
  case False
  then have "0 \<le> round53 x"
    using fl_nonneg [of x] by (simp add: fl_def)
  with False show ?thesis by (simp add: fl_def round53_idem)
qed

lemma fadd_zero: "fadd 0 (fl x) = fl x"
  by (simp add: fadd_def fl_idem)

lemma fadd_zero_cost: "fadd 0 (calculateImageCost w h m) = calculateImageCost w h m"
  by (simp add: calculateImageCost_def Number_of_decimal_def Let_def fadd_zero)

text \<open>
  \<open>string_of_nat\<close> prints the decimal digits that \<open>decimal_value\<close> reads back.
\<close>

lemma decimal_value_append:
  "decimal_value (xs @ ys) acc
     = (case decimal_value xs acc of None \<Rightarrow> None | Some v \<Rightarrow> decimal_value ys v)"
  by (induction xs arbitrary: acc) (simp_all split: option.splits)

lemma digit_of_nth: "d < 10 \<Longrightarrow> digit_of (''0123456789'' ! d) = Some d"
proof -
  assume "d < 10"
  then have "d \<in> {0, 1, 2, 3, 4, 5, 6, 7, 8, 9}" by auto
  then show ?thesis by (auto simp: digit_of_def)
qed

lemma string_of_nat_read_back: "decimal_value (string_of_nat n) 0 = Some n"
proof (induction n rule: string_of_nat.induct)
  case (1 n)
  show ?case
  proof (cases "n < 10")
    case True
    then show ?thesis
      by (subst string_of_nat.simps) (simp add: digit_of_nth)
  next
    case False
    then have "decimal_value (string_of_nat (n div 10)) 0 = Some (n div 10)"
      by (rule "1.IH")
    then show ?thesis
      using False
      by (subst string_of_nat.simps) (simp add: decimal_value_append digit_of_nth)
  qed
qed

text \<open>
  \<open>Number\<close> on some strings: digits, a sign, white space with a fraction and an
  exponent, a radix prefix, and a word.
\<close>

lemmas Number_eval = Number_of_string_def trim_def is_white_space_def non_decimal_def
  signed_decimal_def unsigned_decimal_def exponent_part_def is_digit_def digit_of_def
  hex_digit_of_def Number_of_value_def negate_def fl_eval

lemma Number_of_string_examples:
  "Number_of_string ''7'' = Num 7"
  "Number_of_string ''1'' = Num 1"
  "Number_of_string [] = Num 0"
  "Number_of_string ''-1'' = Num (- 1)"
  "Number_of_string '' 2.5e1 '' = Num 25"
  "Number_of_string ''0x10'' = Num 16"
  "Number_of_string ''four'' = NaN"
  by (simp_all add: Number_eval)

lemmas cost_eval = calculateImageCost_def COST_PER_MEGAPIXEL_def lit_def fmul_def fdiv_def
  fadd_def or_else_def Number_of_decimal_def toFixed3_def fl_eval

text \<open>
  The doubles that the decimal literals of the cost table denote: \<open>0.05\<close>, \<open>0.025\<close> and
  \<open>0.003\<close> are not binary fractions, each is the nearest multiple of a power of two.
\<close>

lemma lit_rates:
  "lit (5 / 100) = 3602879701896397 / 72057594037927936"
  "lit (25 / 1000) = 3602879701896397 / 144115188075855872"
  "lit (3 / 1000) = 3458764513820541 / 1152921504606846976"
  by (simp_all add: lit_def fl_eval)

lemma cost_1000_1000_dev:
  "calculateImageCost 1000 1000 FluxDev = 3602879701896397 / 144115188075855872"
  by (simp add: cost_eval)

lemma cost_2000_1000_dev:
  "calculateImageCost 2000 1000 FluxDev = 3602879701896397 / 72057594037927936"
  by (simp add: cost_eval)

lemma cost_2048_1000_dev:
  "calculateImageCost 2048 1000 FluxDev = 7349874591868649 / 144115188075855872"
  by (simp add: cost_eval)

lemma cost_2048_1_dev: "calculateImageCost 2048 1 FluxDev = 0"
  by (simp add: cost_eval)

lemma cost_0_1000_dev: "calculateImageCost 0 1000 FluxDev = 0"
  by (simp add: cost_eval)

lemma cost_1024_1024_schnell:
  "calculateImageCost 1024 1024 FluxSchnell = 3458764513820541 / 1152921504606846976"
  by (simp add: cost_eval)

lemma cost_2048_2048:
  "calculateImageCost 2048 2048 m =
     (case m of FluxPro \<Rightarrow> lit (21 / 100) | FluxLora \<Rightarrow> lit (105 / 1000)
      | FluxDev \<Rightarrow> lit (105 / 1000) | FluxSchnell \<Rightarrow> lit (13 / 1000))"
  by (cases m) (simp_all add: cost_eval)

lemma lit_fallback_costs:
  "lit (21 / 100) = 7566047373982433 / 36028797018963968"
  "lit (105 / 1000) = 7566047373982433 / 72057594037927936"
  "lit (13 / 1000) = 7493989779944505 / 576460752303423488"
  by (simp_all add: lit_def fl_eval)

section \<open>The request payload\<close>

text \<open>
  For a finite count \<open>n\<close>, \<^verbatim>\<open>generateImage\<close> sends \<open>min (max 1 n) 4\<close>, which lies between
  1 and 4 and is \<open>n\<close> itself when \<open>n\<close> does; an omitted count is 1.
  \<^verbatim>\<open>generateImageRealtime\<close> sends no count.
\<close>

lemma generateImage_num_images_clamped:
  "map_of (generateImage_input p ar n opts) ''num_images''
     = Some (Num (min (max 1 (nullish n 1)) 4))
   \<and> 1 \<le> min (max 1 (nullish n 1)) 4 \<and> min (max 1 (nullish n 1)) 4 \<le> (4 :: number)"
  by (simp add: generateImage_input_def)

lemma generateImageRealtime_no_num_images:
  "map_of (generateImageRealtime_send p ar) ''num_images'' = None"
  by (simp add: generateImageRealtime_send_def)

text \<open>
  Claim C1 says that every function that dispatches a generation request places
  \<open>min (max 1 n) 4\<close> in \<^verbatim>\<open>num_images\<close>. \<^verbatim>\<open>generateFluxProUltraImage\<close> does not: it
  forwards \<^verbatim>\<open>Number(num_images)\<close> as it is. Called with \<^verbatim>\<open>num_images: "7"\<close> it sends 7,
  where \<^verbatim>\<open>generateImage\<close>, called with 7, sends 4.
\<close>

theorem C1_ultra_num_images_unclamped:
  "map_of (generateFluxProUltraImage_input
             ((unset_input ''key'' ''a cat'')\<lparr>num_images := Some ''7''\<rparr>)) ''num_images''
     = Some (Num 7)
   \<and> map_of (generateImage_input ''a cat'' ''16:9'' (Some 7) None) ''num_images''
       = Some (Num 4)"
  by (simp add: generateFluxProUltraImage_input_def unset_input_def nullish_def
      generateImage_input_def Number_of_string_examples)

text \<open>
  Claim C7: when the caller leaves the safety checker, the safety tolerance and the
  output format unset, the payload holds \<^verbatim>\<open>enable_safety_checker: false\<close>,
  \<^verbatim>\<open>safety_tolerance: "6"\<close> and \<^verbatim>\<open>output_format: "jpeg"\<close>. This holds for the payload of
  \<^verbatim>\<open>generateImage\<close> (whether \<^verbatim>\<open>options\<close> is absent or has these fields unset) and for the
  payload of \<^verbatim>\<open>generateFluxProUltraImage\<close>. (\<^verbatim>\<open>generateImageRealtime\<close> takes no options;
  what it sends is fixed and has no \<^verbatim>\<open>safety_tolerance\<close>.)
\<close>

theorem C7_defaults:
  assumes "opt_field enable_safety_checker opts = None"
    and "opt_field safety_tolerance opts = None"
    and "opt_field output_format opts = None"
    and "enable_safety_checker i = None"
    and "safety_tolerance i = None"
    and "output_format i = None"
  shows "map_of (generateImage_input p ar n opts) ''enable_safety_checker'' = Some (Bool False)
       \<and> map_of (generateImage_input p ar n opts) ''safety_tolerance'' = Some (Str ''6'')
       \<and> map_of (generateImage_input p ar n opts) ''output_format'' = Some (Str ''jpeg'')
       \<and> map_of (generateFluxProUltraImage_input i) ''enable_safety_checker''
           = Some (Bool False)
       \<and> map_of (generateFluxProUltraImage_input i) ''safety_tolerance'' = Some (Str ''6'')
       \<and> map_of (generateFluxProUltraImage_input i) ''output_format'' = Some (Str ''jpeg'')"
  using assms
  by (simp add: generateImage_input_def generateFluxProUltraImage_input_def nullish_def)

text \<open>
  C7 at a call of \<^verbatim>\<open>generateImage\<close> whose options set only \<^verbatim>\<open>seed\<close> and \<^verbatim>\<open>raw\<close>, and at
  a call of \<^verbatim>\<open>generateFluxProUltraImage\<close> with nothing but the key and the prompt.
\<close>

theorem C7_defaults_witness:
  "map_of (generateImage_input ''a cat'' ''16:9'' (Some 2)
             (Some \<lparr>seed = Some 42, enable_safety_checker = None, safety_tolerance = None,
                     output_format = None, raw = Some True\<rparr>)) ''enable_safety_checker''
     = Some (Bool False)
   \<and> map_of (generateImage_input ''a cat'' ''16:9'' (Some 2)
             (Some \<lparr>seed = Some 42, enable_safety_checker = None, safety_tolerance = None,
                     output_format = None, raw = Some True\<rparr>)) ''safety_tolerance''
     = Some (Str ''6'')
   \<and> map_of (generateImage_input ''a cat'' ''16:9'' (Some 2)
             (Some \<lparr>seed = Some 42, enable_safety_checker = None, safety_tolerance = None,
                     output_format = None, raw = Some True\<rparr>)) ''output_format''
     = Some (Str ''jpeg'')
   \<and> map_of (generateFluxProUltraImage_input (unset_input ''key'' ''a cat''))
        ''enable_safety_checker'' = Some (Bool False)
   \<and> map_of (generateFluxProUltraImage_input (unset_input ''key'' ''a cat''))
        ''safety_tolerance'' = Some (Str ''6'')
   \<and> map_of (generateFluxProUltraImage_input (unset_input ''key'' ''a cat''))
        ''output_format'' = Some (Str ''jpeg'')"
  using C7_defaults [of "Some \<lparr>seed = Some 42, enable_safety_checker = None,
      safety_tolerance = None, output_format = None, raw = Some True\<rparr>"
    "unset_input ''key'' ''a cat''" "''a cat''" "''16:9''" "Some 2"]
  by (simp add: opt_field_def unset_input_def)




section \<open>The response and the cost\<close>

text \<open>
  Claim C2 says that a response whose \<^verbatim>\<open>images\<close> is empty or absent is rejected with
  an error that mentions "No images in response". For an absent \<^verbatim>\<open>images\<close> the code
  throws earlier: the log statement before the guard calls \<^verbatim>\<open>.map\<close> on \<^verbatim>\<open>undefined\<close>, and
  the caller sees the message of that \<^verbatim>\<open>TypeError\<close>, in which the words of the guard do
  not occur.
\<close>

theorem C2_absent_images_type_error:
  "generateImage (\<lambda>k e q. Inr None) ''key'' ''a cat'' ''1:1'' FluxDev (Some 1) None
     = Inl (Error (''Failed to generate image: Cannot read properties of undefined (reading ''
                   @ [CHR 0x27] @ ''map'' @ [CHR 0x27] @ '')'') None)
   \<and> \<not> sublist ''No images in response''
         (''Failed to generate image: Cannot read properties of undefined (reading ''
          @ [CHR 0x27] @ ''map'' @ [CHR 0x27] @ '')'')"
  by (simp add: generateImage_def generateImage_try_def rethrow_def errorMessage_def
      TypeError_map_def sublist_Cons_right)

text \<open>
  The rest of C2 holds: an empty \<^verbatim>\<open>images\<close> is rejected with the message of the guard,
  and a response with at least one image gives the status \<^verbatim>\<open>"COMPLETED"\<close> and the URLs of
  the images in the order of the response, so a result never has an empty URL list.
\<close>

lemma generateImage_empty_images:
  assumes "sub k (AVAILABLE_MODELS m) (generateImage_input p ar n opts) = Inr (Some [])"
  shows "generateImage sub k p ar m n opts
           = Inl (Error ''Failed to generate image: No images in response'' None)"
  using assms
  by (simp add: generateImage_def generateImage_try_def rethrow_def errorMessage_def)

lemma generateImage_completed:
  assumes "sub k (AVAILABLE_MODELS m) (generateImage_input p ar n opts)
             = Inr (Some (img # imgs))"
  shows "\<exists>c. generateImage sub k p ar m n opts
               = Inr \<lparr>status = ''COMPLETED'', imageUrls = url img # map url imgs, cost = c\<rparr>"
  using assms by (simp add: generateImage_def generateImage_try_def)

lemma generateImage_result_nonempty:
  assumes "generateImage sub k p ar m n opts = Inr r"
  shows "status r = ''COMPLETED'' \<and> imageUrls r \<noteq> []"
  using assms
  by (auto simp: generateImage_def generateImage_try_def
      split: sum.splits option.splits if_splits)

text \<open>
  A cost is never negative: neither the cost of one image of non-negative size nor the
  total that \<^verbatim>\<open>generateImage\<close> returns for such images.
\<close>

lemma toFixed3_nonneg: "0 \<le> x \<Longrightarrow> 0 \<le> toFixed3 x"
  by (simp add: toFixed3_def)

lemma calculateImageCost_nonneg:
  assumes "0 \<le> w" and "0 \<le> h"
  shows "0 \<le> calculateImageCost w h m"
proof -
  have rate: "0 \<le> or_else (map_of COST_PER_MEGAPIXEL m) 0"
    by (cases m) (simp_all add: COST_PER_MEGAPIXEL_def or_else_def lit_def fl_nonneg)
  have "0 \<le> fdiv (fmul w h) 1000000"
    using assms by (simp add: fdiv_def fmul_def fl_nonneg)
  with rate have "0 \<le> fmul (fdiv (fmul w h) 1000000) (or_else (map_of COST_PER_MEGAPIXEL m) 0)"
    by (simp add: fmul_def fl_nonneg)
  then show ?thesis
    by (simp add: calculateImageCost_def Number_of_decimal_def fl_nonneg toFixed3_nonneg)
qed

lemma foldl_fadd_nonneg:
  "0 \<le> a \<Longrightarrow> \<forall>img \<in> set imgs. 0 \<le> f img \<Longrightarrow> 0 \<le> foldl (\<lambda>acc img. fadd acc (f img)) a imgs"
  by (induction imgs arbitrary: a) (simp_all add: fadd_def fl_nonneg)

lemma generateImage_cost_nonneg:
  assumes "generateImage (\<lambda>k e q. Inr (Some imgs)) key p ar m n opts = Inr r"
    and "\<forall>img \<in> set imgs. (\<forall>w. width img = Some w \<longrightarrow> 0 \<le> w)
                            \<and> (\<forall>h. height img = Some h \<longrightarrow> 0 \<le> h)"
  shows "0 \<le> cost r"
proof -
  have dim: "0 \<le> or_else d 2048" if "\<forall>v. d = Some v \<longrightarrow> 0 \<le> v" for d
    using that by (cases d) (simp_all add: or_else_def)
  from assms(1) have "cost r = foldl (\<lambda>acc img. fadd acc
       (calculateImageCost (or_else (width img) 2048) (or_else (height img) 2048) m)) 0 imgs"
    by (auto simp: generateImage_def generateImage_try_def split: if_splits)
  with assms(2) show ?thesis
    by (simp add: foldl_fadd_nonneg calculateImageCost_nonneg dim)
qed

text \<open>
  Claim C3 says that the total is the sum of the per-image costs of the images' own
  width and height, the fallback 2048 by 2048 being used for an image that lacks one
  of them. An image of width 0 and height 1000 lacks neither, and its own cost is 0;
  the code charges it as 2048 by 1000, that is \<open>0.051\<close>.
\<close>

theorem C3_zero_width_counterexample:
  "generateImage (\<lambda>k e q. Inr (Some [\<lparr>url = Some ''a'', width = Some 0, height = Some 1000\<rparr>]))
       ''key'' ''a cat'' ''1:1'' FluxDev (Some 1) None
     = Inr \<lparr>status = ''COMPLETED'', imageUrls = [Some ''a''],
            cost = 7349874591868649 / 144115188075855872\<rparr>
   \<and> lit (51 / 1000) = 7349874591868649 / 144115188075855872
   \<and> calculateImageCost 0 1000 FluxDev = 0"
  apply (intro conjI)
    apply (simp add: generateImage_def generateImage_try_def or_else_def cost_2048_1000_dev)
    apply (simp add: fadd_def fl_eval)
   apply (simp add: lit_def fl_eval)
  apply (rule cost_0_1000_dev)
  done

text \<open>
  The rounding of a cost is that of the double, as \<^verbatim>\<open>toFixed\<close> sees it, and not that of
  the exact product: 90 by 1000 pixels at the rate \<open>0.05\<close> are \<open>0.0045\<close> exactly, which rounds
  to \<open>0.005\<close>, but the double product lies just below and the cost is \<open>0.004\<close>.
\<close>

lemma cost_90_1000_pro:
  "calculateImageCost 90 1000 FluxPro = lit (4 / 1000)
   \<and> toFixed3 (90 * 1000 / 1000000 * (5 / 100)) = 5 / 1000"
  by (simp add: cost_eval)

text \<open>
  Claim C3 as amended. The cost of one image is
  \<^verbatim>\<open>Number((width * height / 1000000 * r).toFixed(3))\<close> in double arithmetic, \<open>r\<close> being the
  rate of the alias. For a response of at least one image the returned total is the
  sum of the per-image costs, added from 0 in the order of the response, where the
  width and the height of an image are, each on its own, replaced by 2048 when absent
  or 0.
\<close>

theorem C3_total_cost:
  "calculateImageCost w h m
     = Number_of_decimal (toFixed3 (fmul (fdiv (fmul w h) 1000000)
         (case m of FluxPro \<Rightarrow> lit (5 / 100) | FluxLora \<Rightarrow> lit (25 / 1000)
          | FluxDev \<Rightarrow> lit (25 / 1000) | FluxSchnell \<Rightarrow> lit (3 / 1000))))
   \<and> (sub k (AVAILABLE_MODELS m) (generateImage_input p ar n opts) = Inr (Some imgs)
        \<and> imgs \<noteq> [] \<longrightarrow>
      (\<exists>r. generateImage sub k p ar m n opts = Inr r
         \<and> cost r = foldl fadd 0
             (map (\<lambda>img. calculateImageCost
                     (case width img of None \<Rightarrow> 2048 | Some v \<Rightarrow> if v = 0 then 2048 else v)
                     (case height img of None \<Rightarrow> 2048 | Some v \<Rightarrow> if v = 0 then 2048 else v) m)
                imgs)))"
proof -
  have rate: "or_else (map_of COST_PER_MEGAPIXEL m) 0
      = (case m of FluxPro \<Rightarrow> lit (5 / 100) | FluxLora \<Rightarrow> lit (25 / 1000)
          | FluxDev \<Rightarrow> lit (25 / 1000) | FluxSchnell \<Rightarrow> lit (3 / 1000))"
    by (cases m) (simp_all add: COST_PER_MEGAPIXEL_def or_else_def lit_rates)
  have per_image: "calculateImageCost w h m
     = Number_of_decimal (toFixed3 (fmul (fdiv (fmul w h) 1000000)
         (case m of FluxPro \<Rightarrow> lit (5 / 100) | FluxLora \<Rightarrow> lit (25 / 1000)
          | FluxDev \<Rightarrow> lit (25 / 1000) | FluxSchnell \<Rightarrow> lit (3 / 1000))))"
    by (simp only: calculateImageCost_def rate Let_def)
  have fold: "foldl (\<lambda>acc img. fadd acc (f img)) a xs = foldl fadd a (map f xs)"
    for f :: "image \<Rightarrow> number" and a xs
    by (induction xs arbitrary: a) simp_all
  have dims: "or_else d 2048 = (case d of None \<Rightarrow> 2048 | Some v \<Rightarrow> if v = 0 then 2048 else v)"
    for d
    by (simp add: or_else_def)
  have total: "\<exists>r. generateImage sub k p ar m n opts = Inr r
         \<and> cost r = foldl fadd 0
             (map (\<lambda>img. calculateImageCost
                     (case width img of None \<Rightarrow> 2048 | Some v \<Rightarrow> if v = 0 then 2048 else v)
                     (case height img of None \<Rightarrow> 2048 | Some v \<Rightarrow> if v = 0 then 2048 else v) m)
                imgs)"
    if "sub k (AVAILABLE_MODELS m) (generateImage_input p ar n opts) = Inr (Some imgs)"
      and "imgs \<noteq> []"
    using that by (simp add: generateImage_def generateImage_try_def fold dims)
  from per_image total show ?thesis by blast
qed

text \<open>
  The amended C3 at a response of two images, the first without a width: the total is
  the cost of 2048 by 1000 plus the cost of 1000 by 1000.
\<close>

theorem C3_total_cost_witness:
  "\<exists>r. generateImage
          (\<lambda>k e q. Inr (Some [\<lparr>url = Some ''a'', width = None, height = Some 1000\<rparr>,
                               \<lparr>url = Some ''b'', width = Some 1000, height = Some 1000\<rparr>]))
          ''key'' ''a cat'' ''1:1'' FluxDev (Some 2) None = Inr r
     \<and> cost r = fadd (fadd 0 (calculateImageCost 2048 1000 FluxDev))
                   (calculateImageCost 1000 1000 FluxDev)"
proof -
  have response:
    "(\<lambda>k e q. Inr (Some [\<lparr>url = Some ''a'', width = None, height = Some 1000\<rparr>,
                         \<lparr>url = Some ''b'', width = Some 1000, height = Some 1000\<rparr>]))
       ''key'' (AVAILABLE_MODELS FluxDev) (generateImage_input ''a cat'' ''1:1'' (Some 2) None)
     = Inr (Some [\<lparr>url = Some ''a'', width = None, height = Some 1000\<rparr>,
                  \<lparr>url = Some ''b'', width = Some 1000, height = Some 1000\<rparr>])
     \<and> [\<lparr>url = Some ''a'', width = None, height = Some 1000\<rparr>,
        \<lparr>url = Some ''b'', width = Some 1000, height = Some 1000\<rparr>] \<noteq> []"
    by simp
  from C3_total_cost [of 1000 1000 FluxDev
    "\<lambda>k e q. Inr (Some [\<lparr>url = Some ''a'', width = None, height = Some 1000\<rparr>,
                         \<lparr>url = Some ''b'', width = Some 1000, height = Some 1000\<rparr>])"
    "''key''" "''a cat''" "''1:1''" "Some 2" None
    "[\<lparr>url = Some ''a'', width = None, height = Some 1000\<rparr>,
      \<lparr>url = Some ''b'', width = Some 1000, height = Some 1000\<rparr>]",
    THEN conjunct2, rule_format, OF response]
  show ?thesis by simp
qed

text \<open>
  Claim C4 says that the returned total is rounded to three decimals. Each per-image
  cost is, but the sum of doubles is not rounded again. For three images of 1024 by
  1024 under "flux-schnell" each image costs \<open>0.003\<close> and the total is the double
  \<open>0.009000000000000001\<close>; rounding it to three decimals gives another double, \<open>0.009\<close>.
\<close>

theorem C4_total_not_rounded:
  "generateImage
       (\<lambda>k e q. Inr (Some [\<lparr>url = Some ''a'', width = Some 1024, height = Some 1024\<rparr>,
                            \<lparr>url = Some ''b'', width = Some 1024, height = Some 1024\<rparr>,
                            \<lparr>url = Some ''c'', width = Some 1024, height = Some 1024\<rparr>]))
       ''key'' ''a cat'' ''1:1'' FluxSchnell (Some 3) None
     = Inr \<lparr>status = ''COMPLETED'', imageUrls = [Some ''a'', Some ''b'', Some ''c''],
            cost = 1297036692682703 / 144115188075855872\<rparr>
   \<and> Number_of_decimal (toFixed3 (1297036692682703 / 144115188075855872))
       = 5188146770730811 / 576460752303423488
   \<and> (1297036692682703 / 144115188075855872 :: rat) \<noteq> 5188146770730811 / 576460752303423488"
  apply (intro conjI)
    apply (simp add: generateImage_def generateImage_try_def or_else_def cost_1024_1024_schnell)
    apply (simp add: fadd_def fl_eval)
   apply (simp add: Number_of_decimal_def toFixed3_def fl_eval)
  apply simp
  done

text \<open>
  Claim C5 gives, for the images \<^verbatim>\<open>a\<close> of 1000 by 1000 and \<^verbatim>\<open>b\<close> of 2000 by 1000 under
  "flux-dev", the URLs \<^verbatim>\<open>["a", "b"]\<close>, the status \<^verbatim>\<open>"COMPLETED"\<close> and the total cost
  \<open>0.075\<close>. The URLs and the status are as claimed. The cost is the double sum of
  \<open>0.025\<close> and \<open>0.05\<close>, which is \<open>0.07500000000000001\<close>, one unit in the last place above
  the double that \<open>0.075\<close> denotes.
\<close>

theorem C5_example_cost:
  "generateImage
       (\<lambda>k e q. Inr (Some [\<lparr>url = Some ''a'', width = Some 1000, height = Some 1000\<rparr>,
                            \<lparr>url = Some ''b'', width = Some 2000, height = Some 1000\<rparr>]))
       ''key'' ''a cat'' ''1:1'' FluxDev (Some 2) None
     = Inr \<lparr>status = ''COMPLETED'', imageUrls = [Some ''a'', Some ''b''],
            cost = 1351079888211149 / 18014398509481984\<rparr>
   \<and> lit (75 / 1000) = 5404319552844595 / 72057594037927936
   \<and> (1351079888211149 / 18014398509481984 :: rat) \<noteq> 5404319552844595 / 72057594037927936"
  apply (intro conjI)
    apply (simp add: generateImage_def generateImage_try_def or_else_def cost_1000_1000_dev
      cost_2000_1000_dev)
    apply (simp add: fadd_def fl_eval)
   apply (simp add: lit_def fl_eval)
  apply simp
  done

text \<open>
  Claim C10 says that a zero width or height is costed as 2048, and concludes that an
  image of zero pixels costs the rate times 2048 by 2048 and never 0. An image of
  width 0 and height 1 has zero pixels; it is costed as 2048 by 1, which rounds to 0.
\<close>

theorem C10_zero_by_one_counterexample:
  "generateImage (\<lambda>k e q. Inr (Some [\<lparr>url = Some ''a'', width = Some 0, height = Some 1\<rparr>]))
       ''key'' ''a cat'' ''1:1'' FluxDev (Some 1) None
     = Inr \<lparr>status = ''COMPLETED'', imageUrls = [Some ''a''], cost = 0\<rparr>"
  by (simp add: generateImage_def generateImage_try_def or_else_def cost_2048_1_dev)
     (simp add: fadd_def fl_eval)

text \<open>
  Claim C10 as amended. A width or height of 0 is costed as if it were 2048, exactly
  as an absent one: writing 2048 for every zero or absent dimension of a response, or
  leaving out every zero dimension, changes nothing in what \<^verbatim>\<open>generateImage\<close> returns.
  So an image with a single zero dimension costs what 2048 times its other dimension
  costs, and an image whose width and height are both 0 costs the rate times 2048 by
  2048 over a million, rounded to three decimals: \<open>0.21\<close> for "flux-pro", \<open>0.105\<close> for
  "flux-lora" and "flux-dev", \<open>0.013\<close> for "flux-schnell", and so never 0.
\<close>

theorem C10_zero_dimension:
  "generateImage
      (\<lambda>k e q. Inr (Some (map (\<lambda>img. img\<lparr>width := Some (case width img of
                                                            None \<Rightarrow> 2048
                                                          | Some v \<Rightarrow> if v = 0 then 2048 else v),
                                           height := Some (case height img of
                                                             None \<Rightarrow> 2048
                                                           | Some v \<Rightarrow> if v = 0 then 2048 else v)\<rparr>)
                            imgs)))
      key p ar m n opts
     = generateImage (\<lambda>k e q. Inr (Some imgs)) key p ar m n opts
   \<and> generateImage
      (\<lambda>k e q. Inr (Some (map (\<lambda>img. img\<lparr>width := if width img = Some 0 then None else width img,
                                           height := if height img = Some 0 then None else height img\<rparr>)
                            imgs)))
      key p ar m n opts
     = generateImage (\<lambda>k e q. Inr (Some imgs)) key p ar m n opts
   \<and> generateImage (\<lambda>k e q. Inr (Some [\<lparr>url = u, width = Some 0, height = Some h\<rparr>]))
       key p ar m n opts
     = Inr \<lparr>status = ''COMPLETED'', imageUrls = [u],
            cost = calculateImageCost 2048 (if h = 0 then 2048 else h) m\<rparr>
   \<and> generateImage (\<lambda>k e q. Inr (Some [\<lparr>url = u, width = Some w, height = Some 0\<rparr>]))
       key p ar m n opts
     = Inr \<lparr>status = ''COMPLETED'', imageUrls = [u],
            cost = calculateImageCost (if w = 0 then 2048 else w) 2048 m\<rparr>
   \<and> calculateImageCost 2048 2048 m
     = (case m of FluxPro \<Rightarrow> lit (21 / 100) | FluxLora \<Rightarrow> lit (105 / 1000)
        | FluxDev \<Rightarrow> lit (105 / 1000) | FluxSchnell \<Rightarrow> lit (13 / 1000))
   \<and> calculateImageCost 2048 2048 m \<noteq> 0"
proof -
  let ?cost = "\<lambda>acc img. fadd acc (calculateImageCost (or_else (width img) 2048)
                                     (or_else (height img) 2048) m)"
  have as_2048: "foldl ?cost a
          (map (\<lambda>img. img\<lparr>width := Some (case width img of
                                            None \<Rightarrow> 2048
                                          | Some v \<Rightarrow> if v = 0 then 2048 else v),
                          height := Some (case height img of
                                            None \<Rightarrow> 2048
                                          | Some v \<Rightarrow> if v = 0 then 2048 else v)\<rparr>) imgs)
      = foldl ?cost a imgs" for a
    by (induction imgs arbitrary: a) (simp_all add: or_else_def split: option.splits)
  have as_absent: "foldl ?cost a
          (map (\<lambda>img. img\<lparr>width := if width img = Some 0 then None else width img,
                          height := if height img = Some 0 then None else height img\<rparr>) imgs)
      = foldl ?cost a imgs" for a
    by (induction imgs arbitrary: a) (simp_all add: or_else_def)
  have c1: "generateImage
      (\<lambda>k e q. Inr (Some (map (\<lambda>img. img\<lparr>width := Some (case width img of
                                                            None \<Rightarrow> 2048
                                                          | Some v \<Rightarrow> if v = 0 then 2048 else v),
                                           height := Some (case height img of
                                                             None \<Rightarrow> 2048
                                                           | Some v \<Rightarrow> if v = 0 then 2048 else v)\<rparr>)
                            imgs)))
      key p ar m n opts
     = generateImage (\<lambda>k e q. Inr (Some imgs)) key p ar m n opts"
    using as_2048 by (simp add: generateImage_def generateImage_try_def comp_def)
  have c2: "generateImage
      (\<lambda>k e q. Inr (Some (map (\<lambda>img. img\<lparr>width := if width img = Some 0 then None else width img,
                                           height := if height img = Some 0 then None else height img\<rparr>)
                            imgs)))
      key p ar m n opts
     = generateImage (\<lambda>k e q. Inr (Some imgs)) key p ar m n opts"
    using as_absent by (simp add: generateImage_def generateImage_try_def comp_def)
  have c3: "generateImage (\<lambda>k e q. Inr (Some [\<lparr>url = u, width = Some 0, height = Some h\<rparr>]))
       key p ar m n opts
     = Inr \<lparr>status = ''COMPLETED'', imageUrls = [u],
            cost = calculateImageCost 2048 (if h = 0 then 2048 else h) m\<rparr>"
    by (simp add: generateImage_def generateImage_try_def or_else_def fadd_zero_cost)
  have c4: "generateImage (\<lambda>k e q. Inr (Some [\<lparr>url = u, width = Some w, height = Some 0\<rparr>]))
       key p ar m n opts
     = Inr \<lparr>status = ''COMPLETED'', imageUrls = [u],
            cost = calculateImageCost (if w = 0 then 2048 else w) 2048 m\<rparr>"
    by (simp add: generateImage_def generateImage_try_def or_else_def fadd_zero_cost)
  have c5: "calculateImageCost 2048 2048 m
     = (case m of FluxPro \<Rightarrow> lit (21 / 100) | FluxLora \<Rightarrow> lit (105 / 1000)
        | FluxDev \<Rightarrow> lit (105 / 1000) | FluxSchnell \<Rightarrow> lit (13 / 1000))"
    by (rule cost_2048_2048)
  have c6: "calculateImageCost 2048 2048 m \<noteq> 0"
    by (cases m) (simp_all add: cost_eval)
  from c1 c2 c3 c4 c5 c6 show ?thesis by blast
qed

section \<open>Failures\<close>

text \<open>
  The \<^verbatim>\<open>Error\<close> that the \<^verbatim>\<open>catch\<close> block throws, and the underlying errors with which
  \<^verbatim>\<open>generateImage\<close> reaches it.
\<close>

lemma rethrow_format:
  "rethrow e = Error (''Failed to generate image: '' @
                (case e of
                   Error msg st \<Rightarrow>
                     msg @ (case st of
                              None \<Rightarrow> []
                            | Some c \<Rightarrow>
                                if c = 0 then [] else '' (Status: '' @ string_of_nat c @ '')'')
                 | NonError \<Rightarrow> ''Unknown error'')) None"
  by (simp add: rethrow_def errorMessage_def)

lemma generateImage_fails:
  assumes "generateImage sub k p ar m n opts = Inl x"
  shows "\<exists>e. x = rethrow e
          \<and> (sub k (AVAILABLE_MODELS m) (generateImage_input p ar n opts) = Inl e
             \<or> sub k (AVAILABLE_MODELS m) (generateImage_input p ar n opts) = Inr None
                 \<and> e = Error TypeError_map None
             \<or> sub k (AVAILABLE_MODELS m) (generateImage_input p ar n opts) = Inr (Some [])
                 \<and> e = Error ''No images in response'' None)"
proof (cases "sub k (AVAILABLE_MODELS m) (generateImage_input p ar n opts)")
  case (Inl e)
  with assms have "x = rethrow e"
    by (simp add: generateImage_def generateImage_try_def)
  with Inl show ?thesis by blast
next
  case (Inr result)
  show ?thesis
  proof (cases result)
    case None
    with Inr assms have "x = rethrow (Error TypeError_map None)"
      by (simp add: generateImage_def generateImage_try_def)
    with Inr None show ?thesis by blast
  next
    case (Some imgs)
    with Inr assms have "imgs = [] \<and> x = rethrow (Error ''No images in response'' None)"
      by (simp add: generateImage_def generateImage_try_def split: if_splits)
    with Inr Some show ?thesis by blast
  qed
qed

text \<open>
  Claim C8: whenever \<^verbatim>\<open>generateImage\<close> fails, it rejects with an \<^verbatim>\<open>Error\<close> whose message is
  "Failed to generate image: " followed by the message of the underlying error, with
  " (Status: code)" appended when that error carries a status code, and with
  "Unknown error" in place of the message when the thrown value is no \<^verbatim>\<open>Error\<close>. A
  status code is the HTTP status of the provider's error, which is never 0 (the
  \<^verbatim>\<open>catch\<close> block appends a status that is truthy). The first three parts say what
  becomes of an error of the remote call; the fourth says that every failure has this
  form, the underlying error being that of the remote call or one thrown in the
  \<^verbatim>\<open>try\<close> block. The last two parts say the same of \<^verbatim>\<open>generateFluxProUltraImage\<close>, whose
  \<^verbatim>\<open>catch\<close> block is the same.
\<close>

theorem C8_error_message:
  "(\<forall>msg. sub k (AVAILABLE_MODELS m) (generateImage_input p ar n opts) = Inl (Error msg None) \<longrightarrow>
      generateImage sub k p ar m n opts
        = Inl (Error (''Failed to generate image: '' @ msg) None))
   \<and> (\<forall>msg c. sub k (AVAILABLE_MODELS m) (generateImage_input p ar n opts)
                 = Inl (Error msg (Some c)) \<and> c \<noteq> 0 \<longrightarrow>
      generateImage sub k p ar m n opts
        = Inl (Error (''Failed to generate image: '' @ msg @ '' (Status: '' @ string_of_nat c
                      @ '')'') None))
   \<and> (sub k (AVAILABLE_MODELS m) (generateImage_input p ar n opts) = Inl NonError \<longrightarrow>
      generateImage sub k p ar m n opts
        = Inl (Error ''Failed to generate image: Unknown error'' None))
   \<and> (\<forall>x. generateImage sub k p ar m n opts = Inl x \<longrightarrow>
      (\<exists>e. x = Error (''Failed to generate image: '' @
                (case e of
                   Error msg st \<Rightarrow>
                     msg @ (case st of
                              None \<Rightarrow> []
                            | Some c \<Rightarrow>
                                if c = 0 then [] else '' (Status: '' @ string_of_nat c @ '')'')
                 | NonError \<Rightarrow> ''Unknown error'')) None
          \<and> (sub k (AVAILABLE_MODELS m) (generateImage_input p ar n opts) = Inl e
             \<or> sub k (AVAILABLE_MODELS m) (generateImage_input p ar n opts) = Inr None
                 \<and> e = Error TypeError_map None
             \<or> sub k (AVAILABLE_MODELS m) (generateImage_input p ar n opts) = Inr (Some [])
                 \<and> e = Error ''No images in response'' None)))
   \<and> (\<forall>e. sub (apiKey i) ''fal-ai/flux-pro/v1.1-ultra'' (generateFluxProUltraImage_input i)
             = Inl e \<longrightarrow>
      generateFluxProUltraImage sub i
        = Inl (Error (''Failed to generate image: '' @
                (case e of
                   Error msg st \<Rightarrow>
                     msg @ (case st of
                              None \<Rightarrow> []
                            | Some c \<Rightarrow>
                                if c = 0 then [] else '' (Status: '' @ string_of_nat c @ '')'')
                 | NonError \<Rightarrow> ''Unknown error'')) None))
   \<and> (\<forall>y. generateFluxProUltraImage sub i = Inl y \<longrightarrow>
      (\<exists>e. y = Error (''Failed to generate image: '' @
                (case e of
                   Error msg st \<Rightarrow>
                     msg @ (case st of
                              None \<Rightarrow> []
                            | Some c \<Rightarrow>
                                if c = 0 then [] else '' (Status: '' @ string_of_nat c @ '')'')
                 | NonError \<Rightarrow> ''Unknown error'')) None
          \<and> (sub (apiKey i) ''fal-ai/flux-pro/v1.1-ultra'' (generateFluxProUltraImage_input i)
                = Inl e
             \<or> (\<exists>result. sub (apiKey i) ''fal-ai/flux-pro/v1.1-ultra''
                             (generateFluxProUltraImage_input i) = Inr result
                   \<and> (first_url result = None \<or> first_url result = Some []))
                 \<and> e = Error ''No image URL in response'' None)))"
proof -
  let ?r = "sub k (AVAILABLE_MODELS m) (generateImage_input p ar n opts)"
  let ?u = "sub (apiKey i) ''fal-ai/flux-pro/v1.1-ultra'' (generateFluxProUltraImage_input i)"
  have thrown: "generateImage sub k p ar m n opts = Inl (rethrow e)" if "?r = Inl e" for e
    using that by (simp add: generateImage_def generateImage_try_def)
  have ultra_thrown: "generateFluxProUltraImage sub i = Inl (rethrow e)" if "?u = Inl e" for e
    using that by (simp add: generateFluxProUltraImage_def generateFluxProUltraImage_try_def)
  have c1: "generateImage sub k p ar m n opts
        = Inl (Error (''Failed to generate image: '' @ msg) None)"
    if "?r = Inl (Error msg None)" for msg
    using thrown [OF that] by (simp add: rethrow_format)
  have c2: "generateImage sub k p ar m n opts
        = Inl (Error (''Failed to generate image: '' @ msg @ '' (Status: '' @ string_of_nat c
                      @ '')'') None)"
    if "?r = Inl (Error msg (Some c)) \<and> c \<noteq> 0" for msg c
    using thrown [of "Error msg (Some c)"] that by (simp add: rethrow_format)
  have c3: "generateImage sub k p ar m n opts
        = Inl (Error ''Failed to generate image: Unknown error'' None)"
    if "?r = Inl NonError"
    using thrown [OF that] by (simp add: rethrow_format)
  have c4: "\<exists>e. x = rethrow e
          \<and> (?r = Inl e \<or> ?r = Inr None \<and> e = Error TypeError_map None
             \<or> ?r = Inr (Some []) \<and> e = Error ''No images in response'' None)"
    if "generateImage sub k p ar m n opts = Inl x" for x
    using that by (rule generateImage_fails)
  have c5: "generateFluxProUltraImage sub i = Inl (rethrow e)" if "?u = Inl e" for e
    using that by (rule ultra_thrown)
  have c6: "\<exists>e. y = rethrow e
          \<and> (?u = Inl e
             \<or> (\<exists>result. ?u = Inr result
                   \<and> (first_url result = None \<or> first_url result = Some []))
                 \<and> e = Error ''No image URL in response'' None)"
    if "generateFluxProUltraImage sub i = Inl y" for y
  proof (cases ?u)
    case (Inl e)
    with that have "y = rethrow e"
      by (simp add: generateFluxProUltraImage_def generateFluxProUltraImage_try_def)
    with Inl show ?thesis by blast
  next
    case (Inr result)
    with that have "y = rethrow (Error ''No image URL in response'' None)
        \<and> (first_url result = None \<or> first_url result = Some [])"
      by (simp add: generateFluxProUltraImage_def generateFluxProUltraImage_try_def
          split: option.splits if_splits)
    with Inr show ?thesis by blast
  qed
  from c1 c2 c3 c4 [unfolded rethrow_format] c5 [unfolded rethrow_format]
    c6 [unfolded rethrow_format]
  show ?thesis by blast
qed

text \<open>
  C8 at remote calls that throw an error "Forbidden" with status 403, an error
  "fetch failed" without status, and a value that is no \<^verbatim>\<open>Error\<close>.
\<close>

theorem C8_error_message_witness:
  "generateImage (\<lambda>k e q. Inl (Error ''Forbidden'' (Some 403))) ''key'' ''a cat'' ''1:1''
       FluxDev (Some 1) None
     = Inl (Error ''Failed to generate image: Forbidden (Status: 403)'' None)
   \<and> generateImage (\<lambda>k e q. Inl (Error ''fetch failed'' None)) ''key'' ''a cat'' ''1:1''
       FluxDev (Some 1) None
     = Inl (Error ''Failed to generate image: fetch failed'' None)
   \<and> generateImage (\<lambda>k e q. Inl NonError) ''key'' ''a cat'' ''1:1'' FluxDev (Some 1) None
     = Inl (Error ''Failed to generate image: Unknown error'' None)"
proof -
  have digits: "string_of_nat 403 = ''403''"
    by (simp add: string_of_nat.simps)
  have status: "(\<lambda>k e q. Inl (Error ''Forbidden'' (Some 403))) ''key'' (AVAILABLE_MODELS FluxDev)
        (generateImage_input ''a cat'' ''1:1'' (Some 1) None)
      = (Inl (Error ''Forbidden'' (Some 403)) :: thrown + response) \<and> (403 :: nat) \<noteq> 0"
    by simp
  have plain: "(\<lambda>k e q. Inl (Error ''fetch failed'' None)) ''key'' (AVAILABLE_MODELS FluxDev)
        (generateImage_input ''a cat'' ''1:1'' (Some 1) None)
      = (Inl (Error ''fetch failed'' None) :: thrown + response)"
    by simp
  have other: "(\<lambda>k e q. Inl NonError) ''key'' (AVAILABLE_MODELS FluxDev)
        (generateImage_input ''a cat'' ''1:1'' (Some 1) None)
      = (Inl NonError :: thrown + response)"
    by simp
  note at_status = C8_error_message [of "\<lambda>k e q. Inl (Error ''Forbidden'' (Some 403))" "''key''"
      FluxDev "''a cat''" "''1:1''" "Some 1" None "unset_input ''key'' ''a cat''",
      THEN conjunct2, THEN conjunct1, rule_format, OF status]
  note at_plain = C8_error_message [of "\<lambda>k e q. Inl (Error ''fetch failed'' None)" "''key''"
      FluxDev "''a cat''" "''1:1''" "Some 1" None "unset_input ''key'' ''a cat''",
      THEN conjunct1, rule_format, OF plain]
  note at_other = C8_error_message [of "\<lambda>k e q. Inl NonError" "''key''"
      FluxDev "''a cat''" "''1:1''" "Some 1" None "unset_input ''key'' ''a cat''",
      THEN conjunct2, THEN conjunct2, THEN conjunct1, rule_format, OF other]
  from at_status at_plain at_other show ?thesis
    by (simp add: digits)
qed

text \<open>
  Claim C9: \<^verbatim>\<open>generateFluxProUltraImage\<close> returns the URL of the first image of the
  response and nothing else, whatever count was requested and however many images the
  response holds; when the first image has no URL, or an empty one, the call is
  rejected, whatever the later images hold, and so it is when there is no image.
\<close>

theorem C9_first_url_only:
  assumes "sub (apiKey i) ''fal-ai/flux-pro/v1.1-ultra'' (generateFluxProUltraImage_input i)
             = Inr result"
  shows "(\<forall>img rest u. result = Some (img # rest) \<and> url img = Some u \<and> u \<noteq> [] \<longrightarrow>
            generateFluxProUltraImage sub i = Inr u)
       \<and> (\<forall>img rest. result = Some (img # rest) \<and> (url img = None \<or> url img = Some []) \<longrightarrow>
            generateFluxProUltraImage sub i
              = Inl (Error ''Failed to generate image: No image URL in response'' None))
       \<and> (result = None \<or> result = Some [] \<longrightarrow>
            generateFluxProUltraImage sub i
              = Inl (Error ''Failed to generate image: No image URL in response'' None))
       \<and> (\<forall>u. generateFluxProUltraImage sub i = Inr u \<longrightarrow>
            u \<noteq> [] \<and> (\<exists>img rest. result = Some (img # rest) \<and> url img = Some u))"
  using assms
  by (auto simp: generateFluxProUltraImage_def generateFluxProUltraImage_try_def first_url_def
      rethrow_def errorMessage_def split: option.splits list.splits if_splits)

text \<open>
  C9 at four responses to a request for two images: the images have the URLs \<^verbatim>\<open>a\<close> and
  \<^verbatim>\<open>b\<close>; the first image has no URL and the second has \<^verbatim>\<open>b\<close>; the first image has the
  empty URL and the second has \<^verbatim>\<open>b\<close>; there is no image.
\<close>

theorem C9_first_url_only_witness:
  "generateFluxProUltraImage
     (\<lambda>k e q. Inr (Some [\<lparr>url = Some ''a'', width = Some 1024, height = Some 768\<rparr>,
                          \<lparr>url = Some ''b'', width = Some 1024, height = Some 768\<rparr>]))
     ((unset_input ''key'' ''a cat'')\<lparr>num_images := Some ''2''\<rparr>) = Inr ''a''
   \<and> generateFluxProUltraImage
     (\<lambda>k e q. Inr (Some [\<lparr>url = None, width = Some 1024, height = Some 768\<rparr>,
                          \<lparr>url = Some ''b'', width = Some 1024, height = Some 768\<rparr>]))
     ((unset_input ''key'' ''a cat'')\<lparr>num_images := Some ''2''\<rparr>)
     = Inl (Error ''Failed to generate image: No image URL in response'' None)
   \<and> generateFluxProUltraImage
     (\<lambda>k e q. Inr (Some [\<lparr>url = Some [], width = Some 1024, height = Some 768\<rparr>,
                          \<lparr>url = Some ''b'', width = Some 1024, height = Some 768\<rparr>]))
     ((unset_input ''key'' ''a cat'')\<lparr>num_images := Some ''2''\<rparr>)
     = Inl (Error ''Failed to generate image: No image URL in response'' None)
   \<and> generateFluxProUltraImage (\<lambda>k e q. Inr (Some []))
     ((unset_input ''key'' ''a cat'')\<lparr>num_images := Some ''2''\<rparr>)
     = Inl (Error ''Failed to generate image: No image URL in response'' None)"
proof -
  let ?i = "(unset_input ''key'' ''a cat'')\<lparr>num_images := Some ''2''\<rparr>"
  let ?b = "\<lparr>url = Some ''b'', width = Some 1024, height = Some 768\<rparr>"
  let ?with = "\<lparr>url = Some ''a'', width = Some 1024, height = Some 768\<rparr>"
  let ?without = "\<lparr>url = None, width = Some 1024, height = Some 768\<rparr>"
  let ?empty = "\<lparr>url = Some [], width = Some 1024, height = Some 768\<rparr>"
  have first: "generateFluxProUltraImage (\<lambda>k e q. Inr (Some [?with, ?b])) ?i = Inr ''a''"
    by (rule C9_first_url_only [of "\<lambda>k e q. Inr (Some [?with, ?b])" ?i "Some [?with, ?b]",
          THEN conjunct1, rule_format, of ?with "[?b]" "''a''"]) simp_all
  have second: "generateFluxProUltraImage (\<lambda>k e q. Inr (Some [?without, ?b])) ?i
      = Inl (Error ''Failed to generate image: No image URL in response'' None)"
    by (rule C9_first_url_only [of "\<lambda>k e q. Inr (Some [?without, ?b])" ?i "Some [?without, ?b]",
          THEN conjunct2, THEN conjunct1, rule_format, of ?without "[?b]"]) simp_all
  have third: "generateFluxProUltraImage (\<lambda>k e q. Inr (Some [?empty, ?b])) ?i
      = Inl (Error ''Failed to generate image: No image URL in response'' None)"
    by (rule C9_first_url_only [of "\<lambda>k e q. Inr (Some [?empty, ?b])" ?i "Some [?empty, ?b]",
          THEN conjunct2, THEN conjunct1, rule_format, of ?empty "[?b]"]) simp_all
  have fourth: "generateFluxProUltraImage (\<lambda>k e q. Inr (Some [])) ?i
      = Inl (Error ''Failed to generate image: No image URL in response'' None)"
    by (rule C9_first_url_only [of "\<lambda>k e q. Inr (Some [])" ?i "Some []",
          THEN conjunct2, THEN conjunct2, THEN conjunct1, rule_format]) simp_all
  from first second third fourth show ?thesis by (intro conjI)
qed

end
